theory Spec2Isabelle
  imports Main "HOL-Library.Word" "HOL-Library.Sublist"
begin

section \<open>Data model\<close>

text \<open>
  A \<^verbatim>\<open>time.Time\<close> is the instant it denotes, in nanoseconds relative to the Unix
  epoch. Go's zero \<^verbatim>\<open>Time\<close> is January 1 of year 1, 00:00:00 UTC, which lies
  62135596800 seconds before the epoch; \<^verbatim>\<open>IsZero\<close> recognises exactly that instant.
  A \<^verbatim>\<open>time.Duration\<close> is a signed 64-bit count of nanoseconds. \<^verbatim>\<open>Add\<close> is the
  sum of instant and duration, which is what Go computes as long as the second count of
  the result fits 64 bits, as it does for every reading of the clock.
\<close>

type_synonym Time = int
type_synonym Duration = "64 word"

definition Second :: Duration where
  "Second = 1000000000"

definition Minute :: Duration where
  "Minute = 60 * Second"

definition zeroTime :: Time where
  "zeroTime = - 62135596800 * 1000000000"

definition IsZero :: "Time \<Rightarrow> bool" where
  "IsZero t \<longleftrightarrow> t = zeroTime"

definition Add :: "Time \<Rightarrow> Duration \<Rightarrow> Time" where
  "Add t d = t + sint d"

definition After :: "Time \<Rightarrow> Time \<Rightarrow> bool" where
  "After t u \<longleftrightarrow> u < t"

text \<open>
  \<^verbatim>\<open>time.Unix(sec, 0)\<close> for a signed 64-bit \<^verbatim>\<open>sec\<close>. Go keeps a \<^verbatim>\<open>Time\<close> as a
  signed 64-bit count of seconds since January 1 of year 1 and computes that count as
  \<^verbatim>\<open>sec + 62135596800\<close> in 64 bits, so the sum wraps for a \<^verbatim>\<open>sec\<close> above
  9223371974719179007 and the instant then lies far in the past. \<^verbatim>\<open>t.Unix()\<close> takes
  the offset off again, in 64 bits as well.
\<close>

definition time_Unix :: "64 word \<Rightarrow> Time" where
  "time_Unix sec = (sint (sec + 62135596800) - 62135596800) * 1000000000"

definition Unix :: "Time \<Rightarrow> int" where
  "Unix t = sint (word_of_int (t div 1000000000) :: 64 word)"

record ProviderCredentials =
  AccessToken :: string
  RefreshToken :: string
  Email :: string
  SessionExpiresAt :: Time
  AuthFlowType :: string
  SourceProfile :: string
  StorageLocationUsed :: string

text \<open>The struct literal of the two readers: every field not named is Go's zero value.\<close>

definition newCreds :: "string \<Rightarrow> string \<Rightarrow> string \<Rightarrow> ProviderCredentials" where
  "newCreds a r e =
     \<lparr>AccessToken = a, RefreshToken = r, Email = e, SessionExpiresAt = zeroTime,
      AuthFlowType = [], SourceProfile = [], StorageLocationUsed = []\<rparr>"

record RefreshTokenResponse =
  resp_AccessToken :: string
  resp_RefreshToken :: string
  resp_ExpiresIn :: "64 word"
  resp_TokenType :: string

record Request =
  req_method :: string
  req_url :: string
  req_body :: string
  req_content_type :: string

section \<open>The world outside the package\<close>

text \<open>
  Errors are their messages. A path of the file system is absent, unreadable (any other
  error of \<^verbatim>\<open>os.ReadFile\<close>) or a file with its bytes. \<^verbatim>\<open>os.WriteFile\<close> opens
  the file truncating it and then writes; it can fail at the open, leaving the path as it
  was, or during the write, leaving a prefix of the data behind. The keyring answers
  \<^verbatim>\<open>keyring.Get\<close> for a service and a key with a value or an error, and
  \<^verbatim>\<open>keyring.Set\<close> can be refused. The token endpoint is a function from the request
  to what \<^verbatim>\<open>client.Do\<close> returns. \<open>now\<close> is the reading of the clock; one reading
  serves a whole call.
\<close>

datatype file_node = NotExist | Unreadable string | Content string

datatype write_fault = OpenFails string | WriteFails string nat

datatype http_result = TransportError string | Response int string

record World =
  getenv :: "string \<Rightarrow> string"
  user_home_dir :: "string + string"
  files :: "string \<Rightarrow> file_node"
  mkdir_err :: "string \<Rightarrow> string option"
  write_fault :: "string \<Rightarrow> write_fault option"
  keyring :: "string \<times> string \<Rightarrow> string + string"
  keyring_set_err :: "string \<Rightarrow> string \<Rightarrow> string \<Rightarrow> string option"
  http_Do :: "Request \<Rightarrow> http_result"
  now :: Time

text \<open>
  The functions of Go's standard library that the package calls are parameters: each
  field is the library function of that name, with an error result as \<open>Inl\<close> of its
  message. \<^verbatim>\<open>json.Unmarshal\<close> into a \<^verbatim>\<open>map[string]string\<close> gives the map it
  leaves behind (\<open>None\<close> for a nil map) together with its error, since one caller
  ignores the error and keeps the map.
\<close>

record Lib =
  filepath_Join :: "string list \<Rightarrow> string"
  filepath_Dir :: "string \<Rightarrow> string"
  strings_TrimSpace :: "string \<Rightarrow> string"
  base64_DecodeString :: "string \<Rightarrow> string + string"
  base64_EncodeToString :: "string \<Rightarrow> string"
  json_Unmarshal :: "string \<Rightarrow> (string \<rightharpoonup> string) option \<times> string option"
  json_Marshal :: "(string \<rightharpoonup> string) \<Rightarrow> string + string"
  strconv_ParseInt :: "string \<Rightarrow> string + 64 word"
  fmt_Int :: "int \<Rightarrow> string"
  url_Encode :: "(string \<times> string) list \<Rightarrow> string"
  http_NewRequest :: "string \<Rightarrow> string \<Rightarrow> string \<Rightarrow> string + Request"
  json_Decode :: "string \<Rightarrow> string + RefreshTokenResponse"

definition keyring_Get :: "World \<Rightarrow> string \<Rightarrow> string \<Rightarrow> string + string" where
  "keyring_Get W service key = keyring W (service, key)"

definition keyring_Set :: "World \<Rightarrow> string \<Rightarrow> string \<Rightarrow> string \<Rightarrow> string option \<times> World" where
  "keyring_Set W service key v =
     (case keyring_set_err W service key v of
        Some e \<Rightarrow> (Some e, W)
      | None \<Rightarrow> (None, W\<lparr>keyring := (keyring W)((service, key) := Inr v)\<rparr>))"

definition os_WriteFile :: "World \<Rightarrow> string \<Rightarrow> string \<Rightarrow> string option \<times> World" where
  "os_WriteFile W path bytes =
     (case write_fault W path of
        None \<Rightarrow> (None, W\<lparr>files := (files W)(path := Content bytes)\<rparr>)
      | Some (OpenFails e) \<Rightarrow> (Some e, W)
      | Some (WriteFails e n) \<Rightarrow> (Some e, W\<lparr>files := (files W)(path := Content (take n bytes))\<rparr>))"

section \<open>Constants\<close>

definition keychainServicePrefix :: string where
  "keychainServicePrefix = ''stackit-cli-provider''"

definition keychainAccessToken :: string where
  "keychainAccessToken = ''access_token''"

definition keychainRefreshToken :: string where
  "keychainRefreshToken = ''refresh_token''"

definition keychainUserEmail :: string where
  "keychainUserEmail = ''user_email''"

definition keychainSessionExpiry :: string where
  "keychainSessionExpiry = ''session_expires_at_unix''"

definition keychainAuthFlowType :: string where
  "keychainAuthFlowType = ''auth_flow_type''"

definition defaultProfile :: string where
  "defaultProfile = ''default''"

definition tokenEndpoint :: string where
  "tokenEndpoint = ''https://accounts.stackit.cloud/oauth2/token''"

definition cliClientID :: string where
  "cliClientID = ''stackit-cli-0000-0000-000000000001''"

section \<open>Profile and locations\<close>

definition getActiveProfile :: "Lib \<Rightarrow> World \<Rightarrow> string \<Rightarrow> string + string" where
  "getActiveProfile L W profileOverride =
     (if profileOverride \<noteq> [] then Inr profileOverride
      else if getenv W ''STACKIT_CLI_PROFILE'' \<noteq> [] then Inr (getenv W ''STACKIT_CLI_PROFILE'')
      else (case user_home_dir W of
              Inl e \<Rightarrow> Inl (''get home dir: '' @ e)
            | Inr homeDir \<Rightarrow>
                (case files W (filepath_Join L [homeDir, ''.config'', ''stackit'', ''cli-profile.txt'']) of
                   NotExist \<Rightarrow> Inr defaultProfile
                 | Unreadable e \<Rightarrow> Inl (''read profile file: '' @ e)
                 | Content d \<Rightarrow> Inr (strings_TrimSpace L d))))"

definition getKeyringServiceName :: "string \<Rightarrow> string" where
  "getKeyringServiceName profile =
     (if profile = defaultProfile then keychainServicePrefix
      else keychainServicePrefix @ ''/'' @ profile)"

definition getFilePath :: "Lib \<Rightarrow> World \<Rightarrow> string \<Rightarrow> string + string" where
  "getFilePath L W profile =
     (case user_home_dir W of
        Inl e \<Rightarrow> Inl (''get home dir: '' @ e)
      | Inr homeDir \<Rightarrow>
          (if profile = defaultProfile
           then Inr (filepath_Join L [homeDir, ''.stackit'', ''cli-provider-auth-storage.txt''])
           else Inr (filepath_Join L [homeDir, ''.stackit'', ''profiles'', profile,
                                      ''cli-provider-auth-storage.txt''])))"

section \<open>Reading\<close>

definition readFromKeychain :: "Lib \<Rightarrow> World \<Rightarrow> string \<Rightarrow> string + ProviderCredentials" where
  "readFromKeychain L W profile =
     (let serviceName = getKeyringServiceName profile in
      case keyring_Get W serviceName keychainAccessToken of
        Inl e \<Rightarrow> Inl (''get access_token: '' @ e)
      | Inr accessToken \<Rightarrow>
      (case keyring_Get W serviceName keychainRefreshToken of
        Inl e \<Rightarrow> Inl (''get refresh_token: '' @ e)
      | Inr refreshToken \<Rightarrow>
      (case keyring_Get W serviceName keychainUserEmail of
        Inl e \<Rightarrow> Inl (''get user_email: '' @ e)
      | Inr email \<Rightarrow>
         (let creds = newCreds accessToken refreshToken email;
              creds = (case keyring_Get W serviceName keychainSessionExpiry of
                         Inr expiryStr \<Rightarrow>
                           (case strconv_ParseInt L expiryStr of
                              Inr expiryUnix \<Rightarrow> creds\<lparr>SessionExpiresAt := time_Unix expiryUnix\<rparr>
                            | Inl _ \<Rightarrow> creds)
                       | Inl _ \<Rightarrow> creds);
              creds = (case keyring_Get W serviceName keychainAuthFlowType of
                         Inr authFlow \<Rightarrow> creds\<lparr>AuthFlowType := authFlow\<rparr>
                       | Inl _ \<Rightarrow> creds)
          in Inr creds))))"

text \<open>
  Indexing a Go map, also a nil one, with a missing key gives the empty string and
  \<^verbatim>\<open>ok = false\<close>.
\<close>

definition map_index :: "(string \<rightharpoonup> string) option \<Rightarrow> string \<Rightarrow> string \<times> bool" where
  "map_index data k =
     (case data of
        None \<Rightarrow> ([], False)
      | Some m \<Rightarrow> (case m k of None \<Rightarrow> ([], False) | Some v \<Rightarrow> (v, True)))"

definition readFromFile :: "Lib \<Rightarrow> World \<Rightarrow> string \<Rightarrow> string + ProviderCredentials" where
  "readFromFile L W profile =
     (case getFilePath L W profile of
        Inl e \<Rightarrow> Inl (''get file path: '' @ e)
      | Inr filePath \<Rightarrow>
      (case files W filePath of
        NotExist \<Rightarrow> Inl (''credentials file not found at '' @ filePath)
      | Unreadable e \<Rightarrow> Inl (''read file: '' @ e)
      | Content contentEncoded \<Rightarrow>
      (case base64_DecodeString L contentEncoded of
        Inl e \<Rightarrow> Inl (''decode base64: '' @ e)
      | Inr contentBytes \<Rightarrow>
      (case json_Unmarshal L contentBytes of
        (_, Some e) \<Rightarrow> Inl (''unmarshal json: '' @ e)
      | (data, None) \<Rightarrow>
         (let (accessToken, ok) = map_index data ''access_token'' in
          if \<not> ok \<or> accessToken = [] then Inl ''access_token not found in file''
          else
         (let (refreshToken, ok) = map_index data ''refresh_token'' in
          if \<not> ok \<or> refreshToken = [] then Inl ''refresh_token not found in file''
          else
         (let (email, ok) = map_index data ''user_email'' in
          if \<not> ok \<or> email = [] then Inl ''user_email not found in file''
          else
         (let creds = newCreds accessToken refreshToken email;
              creds = (case map_index data ''session_expires_at_unix'' of
                         (expiryStr, True) \<Rightarrow>
                           (case strconv_ParseInt L expiryStr of
                              Inr expiryUnix \<Rightarrow> creds\<lparr>SessionExpiresAt := time_Unix expiryUnix\<rparr>
                            | Inl _ \<Rightarrow> creds)
                       | (_, False) \<Rightarrow> creds);
              creds = (case map_index data ''auth_flow_type'' of
                         (authFlow, True) \<Rightarrow> creds\<lparr>AuthFlowType := authFlow\<rparr>
                       | (_, False) \<Rightarrow> creds)
          in Inr creds))))))))"

text \<open>
  The message of the combined error of \<^verbatim>\<open>ReadCLICredentials\<close>. The call site names the
  keyring reader \<^verbatim>\<open>readFromKeyring\<close>; the reader the package defines is
  \<^verbatim>\<open>readFromKeychain\<close>.
\<close>

definition login_guidance :: string where
  "login_guidance = ''Please run 'stackit auth provider login' first''"

definition ReadCLICredentials :: "Lib \<Rightarrow> World \<Rightarrow> string \<Rightarrow> string + ProviderCredentials" where
  "ReadCLICredentials L W profileOverride =
     (case getActiveProfile L W profileOverride of
        Inl e \<Rightarrow> Inl (''determine active profile: '' @ e)
      | Inr profile \<Rightarrow>
      (case readFromKeychain L W profile of
        Inr creds \<Rightarrow> Inr (creds\<lparr>SourceProfile := profile, StorageLocationUsed := ''keyring''\<rparr>)
      | Inl err \<Rightarrow>
      (case readFromFile L W profile of
        Inr creds \<Rightarrow> Inr (creds\<lparr>SourceProfile := profile, StorageLocationUsed := ''file''\<rparr>)
      | Inl fileErr \<Rightarrow>
          Inl (''failed to read CLI credentials from keyring ('' @ err @ '') or file (''
               @ fileErr @ ''). '' @ login_guidance))))"

definition IsAuthenticated :: "Lib \<Rightarrow> World \<Rightarrow> string \<Rightarrow> bool" where
  "IsAuthenticated L W profileOverride =
     (case ReadCLICredentials L W profileOverride of
        Inl _ \<Rightarrow> False
      | Inr creds \<Rightarrow> AccessToken creds \<noteq> [])"

section \<open>Writing\<close>

text \<open>
  The results of the two optional \<^verbatim>\<open>keyring.Set\<close> calls are dropped by the source; an
  entry they did store stays stored.
\<close>

definition writeToKeyring :: "Lib \<Rightarrow> World \<Rightarrow> string \<Rightarrow> ProviderCredentials \<Rightarrow> string option \<times> World" where
  "writeToKeyring L W profile creds =
     (let serviceName = getKeyringServiceName profile in
      case keyring_Set W serviceName keychainAccessToken (AccessToken creds) of
        (Some e, W1) \<Rightarrow> (Some (''set access_token: '' @ e), W1)
      | (None, W1) \<Rightarrow>
      (case keyring_Set W1 serviceName keychainRefreshToken (RefreshToken creds) of
        (Some e, W2) \<Rightarrow> (Some (''set refresh_token: '' @ e), W2)
      | (None, W2) \<Rightarrow>
      (case keyring_Set W2 serviceName keychainUserEmail (Email creds) of
        (Some e, W3) \<Rightarrow> (Some (''set user_email: '' @ e), W3)
      | (None, W3) \<Rightarrow>
         (let W4 = (if \<not> IsZero (SessionExpiresAt creds)
                    then snd (keyring_Set W3 serviceName keychainSessionExpiry
                                (fmt_Int L (Unix (SessionExpiresAt creds))))
                    else W3);
              W5 = (if AuthFlowType creds \<noteq> []
                    then snd (keyring_Set W4 serviceName keychainAuthFlowType (AuthFlowType creds))
                    else W4)
          in (None, W5)))))"

text \<open>
  The map that \<^verbatim>\<open>writeToFile\<close> starts from: what \<^verbatim>\<open>json.Unmarshal\<close> left of the
  existing file (its error is not looked at), or a fresh map.
\<close>

definition existing_data :: "Lib \<Rightarrow> World \<Rightarrow> string \<Rightarrow> (string \<rightharpoonup> string)" where
  "existing_data L W filePath =
     (let data = (case files W filePath of
                    Content existingContent \<Rightarrow>
                      (case base64_DecodeString L existingContent of
                         Inr contentBytes \<Rightarrow> fst (json_Unmarshal L contentBytes)
                       | Inl _ \<Rightarrow> None)
                  | NotExist \<Rightarrow> None
                  | Unreadable _ \<Rightarrow> None)
      in case data of None \<Rightarrow> Map.empty | Some m \<Rightarrow> m)"

definition updated_data :: "Lib \<Rightarrow> (string \<rightharpoonup> string) \<Rightarrow> ProviderCredentials \<Rightarrow> (string \<rightharpoonup> string)" where
  "updated_data L data creds =
     (let data = data(''access_token'' \<mapsto> AccessToken creds);
          data = data(''refresh_token'' \<mapsto> RefreshToken creds);
          data = data(''user_email'' \<mapsto> Email creds);
          data = (if \<not> IsZero (SessionExpiresAt creds)
                  then data(''session_expires_at_unix'' \<mapsto> fmt_Int L (Unix (SessionExpiresAt creds)))
                  else data);
          data = (if AuthFlowType creds \<noteq> []
                  then data(''auth_flow_type'' \<mapsto> AuthFlowType creds)
                  else data)
      in data)"

text \<open>
  \<^verbatim>\<open>os.MkdirAll\<close> can fail; the directories it makes are not files and are not
  recorded. The permission bits of \<^verbatim>\<open>os.WriteFile\<close> are not modelled.
\<close>

definition writeToFile :: "Lib \<Rightarrow> World \<Rightarrow> string \<Rightarrow> ProviderCredentials \<Rightarrow> string option \<times> World" where
  "writeToFile L W profile creds =
     (case getFilePath L W profile of
        Inl e \<Rightarrow> (Some (''get file path: '' @ e), W)
      | Inr filePath \<Rightarrow>
         (let data = updated_data L (existing_data L W filePath) creds in
          case json_Marshal L data of
            Inl e \<Rightarrow> (Some (''marshal json: '' @ e), W)
          | Inr newContent \<Rightarrow>
             (let encoded = base64_EncodeToString L newContent in
              case mkdir_err W (filepath_Dir L filePath) of
                Some e \<Rightarrow> (Some (''create directory: '' @ e), W)
              | None \<Rightarrow> os_WriteFile W filePath encoded)))"

text \<open>A \<^verbatim>\<open>*ProviderCredentials\<close> is \<open>None\<close> when nil.\<close>

definition WriteCLICredentials :: "Lib \<Rightarrow> World \<Rightarrow> ProviderCredentials option \<Rightarrow> string option \<times> World" where
  "WriteCLICredentials L W credsp =
     (case credsp of
        None \<Rightarrow> (Some ''credentials cannot be nil'', W)
      | Some creds \<Rightarrow>
         (let profile = (if SourceProfile creds = [] then defaultProfile else SourceProfile creds) in
          case writeToKeyring L W profile creds of
            (None, W1) \<Rightarrow> (None, W1)
          | (Some _, W1) \<Rightarrow> writeToFile L W1 profile creds))"

section \<open>Token refresh\<close>

text \<open>
  \<^verbatim>\<open>RefreshAccessToken\<close> changes the record behind its pointer and returns an error:
  the model returns the error, the record as the caller sees it afterwards, and the world.
  \<^verbatim>\<open>ExpiresIn\<close> is a Go \<^verbatim>\<open>int\<close>, 64 bits wide on the 64-bit platforms, and
  \<^verbatim>\<open>time.Duration(result.ExpiresIn) * time.Second\<close> is a 64-bit product that wraps.
\<close>

definition apply_response :: "Time \<Rightarrow> ProviderCredentials \<Rightarrow> RefreshTokenResponse \<Rightarrow> ProviderCredentials" where
  "apply_response t creds result =
     (let creds = creds\<lparr>AccessToken := resp_AccessToken result\<rparr>;
          creds = (if resp_RefreshToken result \<noteq> []
                   then creds\<lparr>RefreshToken := resp_RefreshToken result\<rparr> else creds);
          creds = (if 0 < sint (resp_ExpiresIn result)
                   then creds\<lparr>SessionExpiresAt := Add t (resp_ExpiresIn result * Second)\<rparr>
                   else creds)
      in creds)"

text \<open>The form values, in the order of the \<^verbatim>\<open>data.Set\<close> calls.\<close>

definition refresh_form :: "ProviderCredentials \<Rightarrow> (string \<times> string) list" where
  "refresh_form creds = [(''grant_type'', ''refresh_token''), (''refresh_token'', RefreshToken creds),
                         (''client_id'', cliClientID)]"

definition RefreshAccessToken ::
  "Lib \<Rightarrow> World \<Rightarrow> ProviderCredentials option \<Rightarrow> string option \<times> ProviderCredentials option \<times> World" where
  "RefreshAccessToken L W credsp =
     (case credsp of
        None \<Rightarrow> (Some ''credentials cannot be nil'', None, W)
      | Some creds \<Rightarrow>
         if RefreshToken creds = [] then (Some ''refresh token is empty'', Some creds, W)
         else
          (let data = url_Encode L (refresh_form creds) in
           case http_NewRequest L ''POST'' tokenEndpoint data of
             Inl e \<Rightarrow> (Some (''create request: '' @ e), Some creds, W)
           | Inr req \<Rightarrow>
              (case http_Do W (req\<lparr>req_content_type := ''application/x-www-form-urlencoded''\<rparr>) of
                 TransportError e \<Rightarrow> (Some (''execute request: '' @ e), Some creds, W)
               | Response status body \<Rightarrow>
                  if status \<noteq> 200
                  then (Some (''token refresh failed with status '' @ fmt_Int L status @ '': '' @ body),
                        Some creds, W)
                  else
                   (case json_Decode L body of
                      Inl e \<Rightarrow> (Some (''decode response: '' @ e), Some creds, W)
                    | Inr result \<Rightarrow>
                       (let creds = apply_response (now W) creds result in
                        case WriteCLICredentials L W (Some creds) of
                          (Some e, W1) \<Rightarrow> (Some (''write refreshed credentials: '' @ e), Some creds, W1)
                        | (None, W1) \<Rightarrow> (None, Some creds, W1))))))"

definition IsTokenExpired :: "World \<Rightarrow> ProviderCredentials option \<Rightarrow> bool" where
  "IsTokenExpired W credsp =
     (case credsp of
        None \<Rightarrow> True
      | Some creds \<Rightarrow>
         if IsZero (SessionExpiresAt creds) then False
         else After (Add (now W) (5 * Minute)) (SessionExpiresAt creds))"

definition EnsureValidToken ::
  "Lib \<Rightarrow> World \<Rightarrow> ProviderCredentials option \<Rightarrow> string option \<times> ProviderCredentials option \<times> World" where
  "EnsureValidToken L W credsp =
     (if \<not> IsTokenExpired W credsp then (None, credsp, W)
      else RefreshAccessToken L W credsp)"

section \<open>Example environments\<close>

text \<open>
  A small instance of the library and of the world, used to run the definitions on
  concrete inputs. The instance of the library agrees with Go's functions on the
  arguments the examples reach: four JSON documents with their Base64 encodings, clean
  slash-separated paths, ASCII white space, and form values that need no escaping.
\<close>

definition dq :: string where
  "dq = [CHR 0x22]"

definition json_field :: "string \<Rightarrow> string \<Rightarrow> string" where
  "json_field k v = dq @ k @ dq @ '':'' @ dq @ v @ dq"

definition example_doc :: string where
  "example_doc = ''{'' @ json_field ''access_token'' ''A'' @ '','' @ json_field ''refresh_token'' ''R''
                 @ '','' @ json_field ''user_email'' ''e@x.com'' @ ''}''"

definition example_doc_b64 :: string where
  "example_doc_b64 = ''eyJhY2Nlc3NfdG9rZW4iOiJBIiwicmVmcmVzaF90b2tlbiI6IlIiLCJ1c2VyX2VtYWlsIjoiZUB4LmNvbSJ9''"

definition example_map :: "string \<rightharpoonup> string" where
  "example_map = [''access_token'' \<mapsto> ''A'', ''refresh_token'' \<mapsto> ''R'', ''user_email'' \<mapsto> ''e@x.com'']"

definition badexp_doc :: string where
  "badexp_doc = ''{'' @ json_field ''access_token'' ''A'' @ '','' @ json_field ''refresh_token'' ''R''
                @ '','' @ json_field ''session_expires_at_unix'' ''abc''
                @ '','' @ json_field ''user_email'' ''e@x.com'' @ ''}''"

definition badexp_doc_b64 :: string where
  "badexp_doc_b64 = ''eyJhY2Nlc3NfdG9rZW4iOiJBIiwicmVmcmVzaF90b2tlbiI6IlIiLCJzZXNzaW9uX2V4cGlyZXNfYXRfdW5peCI6ImFiYyIsInVzZXJfZW1haWwiOiJlQHguY29tIn0=''"

definition badexp_map :: "string \<rightharpoonup> string" where
  "badexp_map = [''access_token'' \<mapsto> ''A'', ''refresh_token'' \<mapsto> ''R'',
                 ''session_expires_at_unix'' \<mapsto> ''abc'', ''user_email'' \<mapsto> ''e@x.com'']"

definition expired_doc :: string where
  "expired_doc = ''{'' @ json_field ''access_token'' ''A'' @ '','' @ json_field ''refresh_token'' ''R''
                 @ '','' @ json_field ''session_expires_at_unix'' ''1700000000''
                 @ '','' @ json_field ''user_email'' ''e@x.com'' @ ''}''"

definition expired_doc_b64 :: string where
  "expired_doc_b64 = ''eyJhY2Nlc3NfdG9rZW4iOiJBIiwicmVmcmVzaF90b2tlbiI6IlIiLCJzZXNzaW9uX2V4cGlyZXNfYXRfdW5peCI6IjE3MDAwMDAwMDAiLCJ1c2VyX2VtYWlsIjoiZUB4LmNvbSJ9''"

definition expired_map :: "string \<rightharpoonup> string" where
  "expired_map = [''access_token'' \<mapsto> ''A'', ''refresh_token'' \<mapsto> ''R'',
                  ''session_expires_at_unix'' \<mapsto> ''1700000000'', ''user_email'' \<mapsto> ''e@x.com'']"

definition refreshed_doc :: string where
  "refreshed_doc = ''{'' @ json_field ''access_token'' ''A2'' @ '','' @ json_field ''refresh_token'' ''R''
                   @ '','' @ json_field ''user_email'' ''e@x.com'' @ ''}''"

definition refreshed_doc_b64 :: string where
  "refreshed_doc_b64 = ''eyJhY2Nlc3NfdG9rZW4iOiJBMiIsInJlZnJlc2hfdG9rZW4iOiJSIiwidXNlcl9lbWFpbCI6ImVAeC5jb20ifQ==''"

definition ascii_space :: "char \<Rightarrow> bool" where
  "ascii_space c \<longleftrightarrow> c \<in> {CHR '' '', CHR 0x09, CHR 0x0A, CHR 0x0B, CHR 0x0C, CHR 0x0D}"

definition map_val :: "(string \<rightharpoonup> string) \<Rightarrow> string \<Rightarrow> string" where
  "map_val m k = (case m k of None \<Rightarrow> [] | Some v \<Rightarrow> v)"

definition response_A2 :: string where
  "response_A2 = ''{'' @ json_field ''access_token'' ''A2'' @ ''}''"

definition response_3600 :: string where
  "response_3600 = ''{'' @ json_field ''access_token'' ''A2'' @ '','' @ dq @ ''expires_in'' @ dq
                   @ '':3600}''"

definition response_long :: string where
  "response_long = ''{'' @ json_field ''access_token'' ''A2'' @ '','' @ dq @ ''expires_in'' @ dq
                   @ '':9223372037}''"

definition example_lib :: Lib where
  "example_lib =
     \<lparr>filepath_Join = (\<lambda>xs. foldr (\<lambda>a b. if b = [] then a else a @ ''/'' @ b) xs []),
      filepath_Dir = (\<lambda>p. rev (tl (dropWhile (\<lambda>c. c \<noteq> CHR ''/'') (rev p)))),
      strings_TrimSpace = (\<lambda>s. rev (dropWhile ascii_space (rev (dropWhile ascii_space s)))),
      base64_DecodeString =
        (\<lambda>s. if s = example_doc_b64 then Inr example_doc
             else if s = badexp_doc_b64 then Inr badexp_doc
             else if s = expired_doc_b64 then Inr expired_doc
             else Inl ''illegal base64 data at input byte 0''),
      base64_EncodeToString = (\<lambda>s. if s = refreshed_doc then refreshed_doc_b64 else []),
      json_Unmarshal =
        (\<lambda>s. if s = example_doc then (Some example_map, None)
             else if s = badexp_doc then (Some badexp_map, None)
             else if s = expired_doc then (Some expired_map, None)
             else (None, Some ''unexpected end of JSON input'')),
      json_Marshal =
        (\<lambda>m. Inr (''{'' @ json_field ''access_token'' (map_val m ''access_token'')
                   @ '','' @ json_field ''refresh_token'' (map_val m ''refresh_token'')
                   @ '','' @ json_field ''user_email'' (map_val m ''user_email'') @ ''}'')),
      strconv_ParseInt =
        (\<lambda>s. if s = ''1700000000'' then Inr 1700000000
             else Inl (''strconv.ParseInt: parsing '' @ dq @ s @ dq @ '': invalid syntax'')),
      fmt_Int =
        (\<lambda>n. if n = 201 then ''201''
             else if n = 1700000000 then ''1700000000''
             else if n = 1700003600 then ''1700003600''
             else if n = - 7523372037 then ''-7523372037''
             else []),
      url_Encode =
        (\<lambda>kvs. ''client_id='' @ map_val (map_of kvs) ''client_id''
               @ ''&grant_type='' @ map_val (map_of kvs) ''grant_type''
               @ ''&refresh_token='' @ map_val (map_of kvs) ''refresh_token''),
      http_NewRequest =
        (\<lambda>m u b. Inr \<lparr>req_method = m, req_url = u, req_body = b, req_content_type = []\<rparr>),
      json_Decode =
        (\<lambda>s. if s = response_A2
             then Inr \<lparr>resp_AccessToken = ''A2'', resp_RefreshToken = [], resp_ExpiresIn = 0,
                       resp_TokenType = []\<rparr>
             else if s = response_3600
             then Inr \<lparr>resp_AccessToken = ''A2'', resp_RefreshToken = [], resp_ExpiresIn = 3600,
                       resp_TokenType = []\<rparr>
             else if s = response_long
             then Inr \<lparr>resp_AccessToken = ''A2'', resp_RefreshToken = [],
                       resp_ExpiresIn = 9223372037, resp_TokenType = []\<rparr>
             else Inl ''unexpected end of JSON input'')\<rparr>"

definition example_world :: World where
  "example_world =
     \<lparr>getenv = (\<lambda>_. []), user_home_dir = Inr ''/home/u'', files = (\<lambda>_. NotExist),
      mkdir_err = (\<lambda>_. None), write_fault = (\<lambda>_. None),
      keyring = (\<lambda>_. Inl ''secret not found in keyring''),
      keyring_set_err = (\<lambda>_ _ _. None),
      http_Do = (\<lambda>_. TransportError ''no such host''),
      now = 1700000000000000000\<rparr>"

definition example_path :: string where
  "example_path = ''/home/u/.stackit/cli-provider-auth-storage.txt''"

definition file_world :: "string \<Rightarrow> World" where
  "file_world enc = example_world\<lparr>files := (\<lambda>p. if p = example_path then Content enc else NotExist)\<rparr>"

definition keyring_world :: "((string \<times> string) \<times> string) list \<Rightarrow> World" where
  "keyring_world entries =
     example_world\<lparr>keyring := (\<lambda>k. case map_of entries k of
                                         None \<Rightarrow> Inl ''secret not found in keyring''
                                       | Some v \<Rightarrow> Inr v)\<rparr>"

definition pointer_path :: string where
  "pointer_path = ''/home/u/.config/stackit/cli-profile.txt''"

definition badexp_keyring :: World where
  "badexp_keyring =
     keyring_world [((''stackit-cli-provider'', ''access_token''), ''A''),
                    ((''stackit-cli-provider'', ''refresh_token''), ''R''),
                    ((''stackit-cli-provider'', ''user_email''), ''e@x.com''),
                    ((''stackit-cli-provider'', ''session_expires_at_unix''), ''abc'')]"

definition profile_world :: "string \<Rightarrow> file_node \<Rightarrow> World" where
  "profile_world env node =
     example_world\<lparr>getenv := (\<lambda>n. if n = ''STACKIT_CLI_PROFILE'' then env else []),
                    files := (\<lambda>p. if p = pointer_path then node else NotExist)\<rparr>"

definition homeless_world :: World where
  "homeless_world = example_world\<lparr>user_home_dir := Inl ''$HOME is not defined''\<rparr>"

definition empty_token_keyring :: World where
  "empty_token_keyring =
     keyring_world [((''stackit-cli-provider'', ''access_token''), []),
                    ((''stackit-cli-provider'', ''refresh_token''), ''R''),
                    ((''stackit-cli-provider'', ''user_email''), ''e@x.com'')]"

definition disk_full_world :: World where
  "disk_full_world =
     (file_world example_doc_b64)
       \<lparr>write_fault := (\<lambda>p. if p = example_path
                              then Some (WriteFails ''no space left on device'' 10) else None)\<rparr>"

definition refreshed_creds :: ProviderCredentials where
  "refreshed_creds =
     \<lparr>AccessToken = ''A2'', RefreshToken = ''R'', Email = ''e@x.com'',
      SessionExpiresAt = zeroTime, AuthFlowType = [], SourceProfile = ''default'',
      StorageLocationUsed = ''file''\<rparr>"

definition stored_keyring :: "int \<Rightarrow> string \<Rightarrow> World" where
  "stored_keyring status body =
     (keyring_world [((''stackit-cli-provider'', ''access_token''), ''A''),
                     ((''stackit-cli-provider'', ''refresh_token''), ''R''),
                     ((''stackit-cli-provider'', ''user_email''), ''e@x.com'')])
       \<lparr>http_Do := (\<lambda>_. Response status body)\<rparr>"

definition keyring_creds :: ProviderCredentials where
  "keyring_creds =
     \<lparr>AccessToken = ''A'', RefreshToken = ''R'', Email = ''e@x.com'',
      SessionExpiresAt = 1700000000000000000, AuthFlowType = [], SourceProfile = ''default'',
      StorageLocationUsed = ''keyring''\<rparr>"

definition expired_file_world :: World where
  "expired_file_world = (file_world expired_doc_b64)\<lparr>http_Do := (\<lambda>_. Response 200 response_A2)\<rparr>"

definition expired_file_creds :: ProviderCredentials where
  "expired_file_creds =
     \<lparr>AccessToken = ''A'', RefreshToken = ''R'', Email = ''e@x.com'',
      SessionExpiresAt = 1700000000000000000, AuthFlowType = [], SourceProfile = ''default'',
      StorageLocationUsed = ''file''\<rparr>"

section \<open>Expiry\<close>

lemma sint_durations:
  "sint (299 * Second) = 299000000000"
  "sint (301 * Second) = 301000000000"
  "sint (5 * Minute) = 300000000000"
  by (simp_all add: Second_def Minute_def)

text \<open>
  C6. The expiry check has a safety margin of five minutes: a credential is expired
  exactly when its \<^verbatim>\<open>SessionExpiresAt\<close> is set and lies less than five minutes
  (300000000000 nanoseconds) after now, already past included. So a credential whose
  \<^verbatim>\<open>SessionExpiresAt\<close> is set and lies 4 minutes 59 seconds after now is expired, one
  whose \<^verbatim>\<open>SessionExpiresAt\<close> lies 5 minutes 1 second after now is not, and one with
  no \<^verbatim>\<open>SessionExpiresAt\<close> (the zero time) is not, so that \<^verbatim>\<open>EnsureValidToken\<close>
  returns at once, without a refresh. A nil credential counts as expired.
\<close>

theorem IsTokenExpired_margin:
  "(IsTokenExpired W (Some c) \<longleftrightarrow>
      \<not> IsZero (SessionExpiresAt c) \<and> SessionExpiresAt c < now W + 300000000000)
   \<and> (SessionExpiresAt c = now W + 299000000000 \<and> \<not> IsZero (SessionExpiresAt c)
      \<longrightarrow> IsTokenExpired W (Some c))
   \<and> (SessionExpiresAt c = now W + 301000000000 \<longrightarrow> \<not> IsTokenExpired W (Some c))
   \<and> (IsZero (SessionExpiresAt c) \<longrightarrow>
        \<not> IsTokenExpired W (Some c) \<and> EnsureValidToken L W (Some c) = (None, Some c, W))
   \<and> IsTokenExpired W None"
  by (auto simp: EnsureValidToken_def IsTokenExpired_def Add_def After_def sint_durations)

theorem IsTokenExpired_margin_witness:
  "IsTokenExpired example_world
     (Some ((newCreds ''A'' ''R'' ''e@x.com'')\<lparr>SessionExpiresAt := 1700000299000000000\<rparr>))
   \<and> IsTokenExpired example_world
     (Some ((newCreds ''A'' ''R'' ''e@x.com'')\<lparr>SessionExpiresAt := 1699996400000000000\<rparr>))
   \<and> \<not> IsTokenExpired example_world
     (Some ((newCreds ''A'' ''R'' ''e@x.com'')\<lparr>SessionExpiresAt := 1700000300000000000\<rparr>))
   \<and> \<not> IsTokenExpired example_world
     (Some ((newCreds ''A'' ''R'' ''e@x.com'')\<lparr>SessionExpiresAt := 1700000301000000000\<rparr>))
   \<and> \<not> IsTokenExpired example_world (Some (newCreds ''A'' ''R'' ''e@x.com''))
   \<and> EnsureValidToken example_lib example_world (Some (newCreds ''A'' ''R'' ''e@x.com''))
       = (None, Some (newCreds ''A'' ''R'' ''e@x.com''), example_world)"
  using IsTokenExpired_margin
          [where c = "(newCreds ''A'' ''R'' ''e@x.com'')\<lparr>SessionExpiresAt := 1700000299000000000\<rparr>"
             and W = example_world]
        IsTokenExpired_margin
          [where c = "(newCreds ''A'' ''R'' ''e@x.com'')\<lparr>SessionExpiresAt := 1699996400000000000\<rparr>"
             and W = example_world]
        IsTokenExpired_margin
          [where c = "(newCreds ''A'' ''R'' ''e@x.com'')\<lparr>SessionExpiresAt := 1700000300000000000\<rparr>"
             and W = example_world]
        IsTokenExpired_margin
          [where c = "(newCreds ''A'' ''R'' ''e@x.com'')\<lparr>SessionExpiresAt := 1700000301000000000\<rparr>"
             and W = example_world]
        IsTokenExpired_margin
          [where c = "newCreds ''A'' ''R'' ''e@x.com''" and W = example_world and L = example_lib]
  by (simp add: example_world_def newCreds_def IsZero_def zeroTime_def)

section \<open>Reading with fallback\<close>

lemma sublist_second: "sublist y (a @ x @ b @ y @ c)"
  by (metis append_assoc sublist_appendI)

lemma sublist_last: "sublist z (a @ x @ b @ y @ c @ z)"
  by (metis append_assoc sublist_append_leftI)

text \<open>
  C5. Once the profile is known, \<^verbatim>\<open>ReadCLICredentials\<close> tries the keyring first: a
  keyring read that succeeds is the result, marked \<^verbatim>\<open>keyring\<close>. When the keyring
  read fails, for any reason, and a failing \<^verbatim>\<open>keyring.Get\<close> of any of the three
  required entries is such a reason, the file is read as a whole: a file read that
  succeeds is the result, marked \<^verbatim>\<open>file\<close>. When both fail the result is one error
  whose message contains the keyring's reason, the file's reason and the advice to run
  the login command.
\<close>

theorem ReadCLICredentials_fallback:
  assumes "getActiveProfile L W ov = Inr p"
  shows "(\<forall>c. readFromKeychain L W p = Inr c \<longrightarrow>
            ReadCLICredentials L W ov
              = Inr (c\<lparr>SourceProfile := p, StorageLocationUsed := ''keyring''\<rparr>))
       \<and> (\<forall>ke c. readFromKeychain L W p = Inl ke \<and> readFromFile L W p = Inr c \<longrightarrow>
            ReadCLICredentials L W ov
              = Inr (c\<lparr>SourceProfile := p, StorageLocationUsed := ''file''\<rparr>))
       \<and> (\<forall>ke fe. readFromKeychain L W p = Inl ke \<and> readFromFile L W p = Inl fe \<longrightarrow>
            (\<exists>msg. ReadCLICredentials L W ov = Inl msg
                   \<and> sublist ke msg \<and> sublist fe msg \<and> sublist login_guidance msg))
       \<and> (\<forall>k e. k \<in> {keychainAccessToken, keychainRefreshToken, keychainUserEmail}
                 \<and> keyring_Get W (getKeyringServiceName p) k = Inl e \<longrightarrow>
            isl (readFromKeychain L W p))"
proof (intro conjI allI impI)
  fix c assume "readFromKeychain L W p = Inr c"
  then show "ReadCLICredentials L W ov
               = Inr (c\<lparr>SourceProfile := p, StorageLocationUsed := ''keyring''\<rparr>)"
    using assms by (simp add: ReadCLICredentials_def)
next
  fix ke c assume "readFromKeychain L W p = Inl ke \<and> readFromFile L W p = Inr c"
  then show "ReadCLICredentials L W ov
               = Inr (c\<lparr>SourceProfile := p, StorageLocationUsed := ''file''\<rparr>)"
    using assms by (simp add: ReadCLICredentials_def)
next
  fix ke fe assume h: "readFromKeychain L W p = Inl ke \<and> readFromFile L W p = Inl fe"
  let ?msg = "''failed to read CLI credentials from keyring ('' @ ke @ '') or file (''
               @ fe @ ''). '' @ login_guidance"
  have "ReadCLICredentials L W ov = Inl ?msg"
    using assms h by (simp add: ReadCLICredentials_def)
  moreover have "sublist ke ?msg" by (rule sublist_appendI)
  moreover have "sublist fe ?msg" by (rule sublist_second)
  moreover have "sublist login_guidance ?msg" by (rule sublist_last)
  ultimately show "\<exists>msg. ReadCLICredentials L W ov = Inl msg
                   \<and> sublist ke msg \<and> sublist fe msg \<and> sublist login_guidance msg"
    by blast
next
  fix k e
  assume "k \<in> {keychainAccessToken, keychainRefreshToken, keychainUserEmail}
          \<and> keyring_Get W (getKeyringServiceName p) k = Inl e"
  then show "isl (readFromKeychain L W p)"
    by (auto simp: readFromKeychain_def Let_def split: sum.splits)
qed

lemma example_file_path: "getFilePath example_lib example_world ''default'' = Inr example_path"
  by (simp add: getFilePath_def example_lib_def example_world_def example_path_def defaultProfile_def)

lemma example_profile: "getActiveProfile example_lib example_world [] = Inr ''default''"
  by (simp add: getActiveProfile_def example_lib_def example_world_def defaultProfile_def)

lemma example_keychain_fails:
  "readFromKeychain example_lib example_world ''default''
     = Inl ''get access_token: secret not found in keyring''"
  by (simp add: readFromKeychain_def keyring_Get_def example_world_def)


lemma example_file_fails:
  "readFromFile example_lib example_world ''default''
     = Inl ''credentials file not found at /home/u/.stackit/cli-provider-auth-storage.txt''"
  by (simp add: readFromFile_def example_file_path) (simp add: example_world_def example_path_def)

lemma file_world_path: "getFilePath example_lib (file_world enc) ''default'' = Inr example_path"
  by (simp add: getFilePath_def example_lib_def example_world_def file_world_def
      example_path_def defaultProfile_def)

lemma file_world_profile: "getActiveProfile example_lib (file_world enc) [] = Inr ''default''"
  by (simp add: getActiveProfile_def example_lib_def example_world_def file_world_def
      example_path_def defaultProfile_def)

lemma file_world_keychain_fails:
  "readFromKeychain example_lib (file_world enc) ''default''
     = Inl ''get access_token: secret not found in keyring''"
  by (simp add: readFromKeychain_def keyring_Get_def example_world_def file_world_def)

lemma example_file_reads:
  "readFromFile example_lib (file_world example_doc_b64) ''default''
     = Inr (newCreds ''A'' ''R'' ''e@x.com'')"
  by (simp add: readFromFile_def file_world_path)
     (simp add: file_world_def example_lib_def example_doc_b64_def badexp_doc_b64_def
        example_map_def map_index_def)

theorem ReadCLICredentials_fallback_witness:
  "ReadCLICredentials example_lib (file_world example_doc_b64) []
     = Inr ((newCreds ''A'' ''R'' ''e@x.com'')
              \<lparr>SourceProfile := ''default'', StorageLocationUsed := ''file''\<rparr>)
   \<and> (\<exists>msg. ReadCLICredentials example_lib example_world [] = Inl msg
          \<and> sublist ''get access_token: secret not found in keyring'' msg
          \<and> sublist ''credentials file not found at /home/u/.stackit/cli-provider-auth-storage.txt'' msg
          \<and> sublist login_guidance msg)"
  using ReadCLICredentials_fallback [OF file_world_profile, of example_doc_b64]
        ReadCLICredentials_fallback [OF example_profile]
        file_world_keychain_fails example_file_reads example_keychain_fails example_file_fails
  by simp

section \<open>The optional expiry entry\<close>

text \<open>
  C10. In both readers a \<^verbatim>\<open>session_expires_at_unix\<close> value that is present and that
  \<^verbatim>\<open>strconv.ParseInt\<close> rejects is ignored: with the three required fields in place
  the read succeeds, returns them, and leaves \<^verbatim>\<open>SessionExpiresAt\<close> at the zero time.
\<close>

theorem unparsable_expiry_ignored:
  "(keyring_Get W (getKeyringServiceName p) keychainAccessToken = Inr a
      \<and> keyring_Get W (getKeyringServiceName p) keychainRefreshToken = Inr r
      \<and> keyring_Get W (getKeyringServiceName p) keychainUserEmail = Inr e
      \<and> keyring_Get W (getKeyringServiceName p) keychainSessionExpiry = Inr s
      \<and> strconv_ParseInt L s = Inl perr
    \<longrightarrow> (\<exists>c. readFromKeychain L W p = Inr c \<and> AccessToken c = a \<and> RefreshToken c = r
              \<and> Email c = e \<and> SessionExpiresAt c = zeroTime))
   \<and> (getFilePath L W p = Inr fp \<and> files W fp = Content enc
      \<and> base64_DecodeString L enc = Inr bytes \<and> json_Unmarshal L bytes = (Some m, None)
      \<and> m ''access_token'' = Some a \<and> a \<noteq> []
      \<and> m ''refresh_token'' = Some r \<and> r \<noteq> []
      \<and> m ''user_email'' = Some e \<and> e \<noteq> []
      \<and> m ''session_expires_at_unix'' = Some s
      \<and> strconv_ParseInt L s = Inl perr
    \<longrightarrow> (\<exists>c. readFromFile L W p = Inr c \<and> AccessToken c = a \<and> RefreshToken c = r
              \<and> Email c = e \<and> SessionExpiresAt c = zeroTime))"
proof (intro conjI impI)
  assume "keyring_Get W (getKeyringServiceName p) keychainAccessToken = Inr a
      \<and> keyring_Get W (getKeyringServiceName p) keychainRefreshToken = Inr r
      \<and> keyring_Get W (getKeyringServiceName p) keychainUserEmail = Inr e
      \<and> keyring_Get W (getKeyringServiceName p) keychainSessionExpiry = Inr s
      \<and> strconv_ParseInt L s = Inl perr"
  then show "\<exists>c. readFromKeychain L W p = Inr c \<and> AccessToken c = a \<and> RefreshToken c = r
              \<and> Email c = e \<and> SessionExpiresAt c = zeroTime"
    by (simp add: readFromKeychain_def Let_def newCreds_def split: sum.splits)
next
  assume "getFilePath L W p = Inr fp \<and> files W fp = Content enc
      \<and> base64_DecodeString L enc = Inr bytes \<and> json_Unmarshal L bytes = (Some m, None)
      \<and> m ''access_token'' = Some a \<and> a \<noteq> []
      \<and> m ''refresh_token'' = Some r \<and> r \<noteq> []
      \<and> m ''user_email'' = Some e \<and> e \<noteq> []
      \<and> m ''session_expires_at_unix'' = Some s
      \<and> strconv_ParseInt L s = Inl perr"
  then show "\<exists>c. readFromFile L W p = Inr c \<and> AccessToken c = a \<and> RefreshToken c = r
              \<and> Email c = e \<and> SessionExpiresAt c = zeroTime"
    by (simp add: readFromFile_def Let_def newCreds_def map_index_def split: option.splits)
qed

lemma badexp_keyring_gets:
  "keyring_Get badexp_keyring (getKeyringServiceName ''default'') keychainAccessToken = Inr ''A''"
  "keyring_Get badexp_keyring (getKeyringServiceName ''default'') keychainRefreshToken = Inr ''R''"
  "keyring_Get badexp_keyring (getKeyringServiceName ''default'') keychainUserEmail = Inr ''e@x.com''"
  "keyring_Get badexp_keyring (getKeyringServiceName ''default'') keychainSessionExpiry = Inr ''abc''"
  by (simp_all add: keyring_Get_def badexp_keyring_def keyring_world_def example_world_def
      getKeyringServiceName_def defaultProfile_def keychainServicePrefix_def
      keychainAccessToken_def keychainRefreshToken_def keychainUserEmail_def
      keychainSessionExpiry_def)

lemma example_parse_abc:
  "strconv_ParseInt example_lib ''abc''
     = Inl (''strconv.ParseInt: parsing '' @ dq @ ''abc'' @ dq @ '': invalid syntax'')"
  by (simp add: example_lib_def)

lemma badexp_file:
  "files (file_world badexp_doc_b64) example_path = Content badexp_doc_b64"
  "base64_DecodeString example_lib badexp_doc_b64 = Inr badexp_doc"
  "json_Unmarshal example_lib badexp_doc = (Some badexp_map, None)"
  "badexp_map ''access_token'' = Some ''A''"
  "badexp_map ''refresh_token'' = Some ''R''"
  "badexp_map ''user_email'' = Some ''e@x.com''"
  "badexp_map ''session_expires_at_unix'' = Some ''abc''"
  by (simp_all add: file_world_def example_lib_def badexp_doc_b64_def example_doc_b64_def
      badexp_doc_def example_doc_def json_field_def dq_def badexp_map_def)

theorem unparsable_expiry_ignored_witness:
  "(\<exists>c. readFromKeychain example_lib badexp_keyring ''default'' = Inr c
        \<and> AccessToken c = ''A'' \<and> RefreshToken c = ''R'' \<and> Email c = ''e@x.com''
        \<and> SessionExpiresAt c = zeroTime)
   \<and> (\<exists>c. readFromFile example_lib (file_world badexp_doc_b64) ''default'' = Inr c
        \<and> AccessToken c = ''A'' \<and> RefreshToken c = ''R'' \<and> Email c = ''e@x.com''
        \<and> SessionExpiresAt c = zeroTime)"
  using unparsable_expiry_ignored
          [where W = badexp_keyring and p = "''default''" and L = example_lib and a = "''A''"
             and r = "''R''" and e = "''e@x.com''" and s = "''abc''"]
        unparsable_expiry_ignored
          [where W = "file_world badexp_doc_b64" and p = "''default''" and L = example_lib
             and a = "''A''" and r = "''R''" and e = "''e@x.com''" and s = "''abc''"
             and fp = example_path and enc = badexp_doc_b64 and bytes = badexp_doc
             and m = badexp_map]
        badexp_keyring_gets example_parse_abc file_world_path [of badexp_doc_b64] badexp_file
  by simp

section \<open>Profile resolution\<close>

text \<open>
  With no override and no environment variable, a home directory that cannot be
  determined makes \<^verbatim>\<open>getActiveProfile\<close> fail, although no pointer file exists.
\<close>

theorem getActiveProfile_home_counterexample:
  "getActiveProfile example_lib homeless_world [] = Inl ''get home dir: $HOME is not defined''
   \<and> files homeless_world pointer_path = NotExist"
  by (simp add: getActiveProfile_def homeless_world_def example_world_def)

text \<open>
  C8, as amended. \<^verbatim>\<open>getActiveProfile\<close> returns the override when it is not empty,
  else the value of \<^verbatim>\<open>STACKIT_CLI_PROFILE\<close> when that is not empty, else, with the
  home directory known, the default profile name when the pointer file does not exist and
  the trimmed contents of the pointer file when they are not empty. It fails exactly when
  override and variable are both empty and either the home directory cannot be determined
  or the pointer file exists and cannot be read.
\<close>

theorem getActiveProfile_priority:
  "(ov \<noteq> [] \<longrightarrow> getActiveProfile L W ov = Inr ov)
   \<and> (ov = [] \<and> getenv W ''STACKIT_CLI_PROFILE'' \<noteq> [] \<longrightarrow>
        getActiveProfile L W ov = Inr (getenv W ''STACKIT_CLI_PROFILE''))
   \<and> (ov = [] \<and> getenv W ''STACKIT_CLI_PROFILE'' = [] \<and> user_home_dir W = Inr h
        \<and> files W (filepath_Join L [h, ''.config'', ''stackit'', ''cli-profile.txt'']) = NotExist \<longrightarrow>
        getActiveProfile L W ov = Inr ''default'')
   \<and> (ov = [] \<and> getenv W ''STACKIT_CLI_PROFILE'' = [] \<and> user_home_dir W = Inr h
        \<and> files W (filepath_Join L [h, ''.config'', ''stackit'', ''cli-profile.txt'']) = Content d
        \<and> strings_TrimSpace L d \<noteq> [] \<longrightarrow>
        getActiveProfile L W ov = Inr (strings_TrimSpace L d))
   \<and> (isl (getActiveProfile L W ov) \<longleftrightarrow>
        ov = [] \<and> getenv W ''STACKIT_CLI_PROFILE'' = []
        \<and> (isl (user_home_dir W)
           \<or> (\<exists>h' e. user_home_dir W = Inr h'
                \<and> files W (filepath_Join L [h', ''.config'', ''stackit'', ''cli-profile.txt''])
                    = Unreadable e)))"
  by (auto simp: getActiveProfile_def defaultProfile_def split: sum.splits file_node.splits)

lemma profile_world_pointer:
  "user_home_dir (profile_world env node) = Inr ''/home/u''"
  "files (profile_world env node)
     (filepath_Join example_lib [''/home/u'', ''.config'', ''stackit'', ''cli-profile.txt'']) = node"
  "getenv (profile_world env node) ''STACKIT_CLI_PROFILE'' = env"
  by (simp_all add: profile_world_def example_world_def example_lib_def pointer_path_def)

lemma example_trim: "strings_TrimSpace example_lib ('' dev'' @ [CHR 0x0A]) = ''dev''"
  by (simp add: example_lib_def ascii_space_def)

theorem getActiveProfile_priority_witness:
  "getActiveProfile example_lib (profile_world ''staging'' (Content ('' dev'' @ [CHR 0x0A]))) ''prod''
     = Inr ''prod''
   \<and> getActiveProfile example_lib (profile_world ''staging'' (Content ('' dev'' @ [CHR 0x0A]))) []
     = Inr ''staging''
   \<and> getActiveProfile example_lib (profile_world [] (Content ('' dev'' @ [CHR 0x0A]))) []
     = Inr ''dev''
   \<and> getActiveProfile example_lib (profile_world [] NotExist) [] = Inr ''default''
   \<and> isl (getActiveProfile example_lib (profile_world [] (Unreadable ''permission denied'')) [])
   \<and> isl (getActiveProfile example_lib homeless_world [])"
  using getActiveProfile_priority
          [where L = example_lib and ov = "''prod''"
             and W = "profile_world ''staging'' (Content ('' dev'' @ [CHR 0x0A]))"]
        getActiveProfile_priority
          [where L = example_lib and ov = "[]"
             and W = "profile_world ''staging'' (Content ('' dev'' @ [CHR 0x0A]))"]
        getActiveProfile_priority
          [where L = example_lib and ov = "[]" and h = "''/home/u''"
             and d = "'' dev'' @ [CHR 0x0A]"
             and W = "profile_world [] (Content ('' dev'' @ [CHR 0x0A]))"]
        getActiveProfile_priority
          [where L = example_lib and ov = "[]" and h = "''/home/u''"
             and W = "profile_world [] NotExist"]
        getActiveProfile_priority
          [where L = example_lib and ov = "[]"
             and W = "profile_world [] (Unreadable ''permission denied'')"]
        getActiveProfile_priority
          [where L = example_lib and ov = "[]" and W = homeless_world]
        profile_world_pointer example_trim
  by (simp add: homeless_world_def example_world_def)

text \<open>
  A pointer file that holds white space only is read without error, and the profile it
  gives is the empty name, not the default one.
\<close>

lemma getActiveProfile_blank_pointer:
  "getActiveProfile example_lib (profile_world [] (Content '' '')) [] = Inr []"
  by (simp add: getActiveProfile_def profile_world_pointer)
     (simp add: example_lib_def ascii_space_def)

section \<open>Required fields\<close>

text \<open>
  C9 at a keyring whose \<^verbatim>\<open>access_token\<close> entry holds the empty string: the keyring
  reader checks only that each \<^verbatim>\<open>keyring.Get\<close> returned no error, so the read
  succeeds with an empty \<^verbatim>\<open>AccessToken\<close>, where the file reader refuses an empty
  value.
\<close>

theorem keyring_read_empty_access_token:
  "ReadCLICredentials example_lib empty_token_keyring []
     = Inr \<lparr>AccessToken = [], RefreshToken = ''R'', Email = ''e@x.com'',
            SessionExpiresAt = zeroTime, AuthFlowType = [], SourceProfile = ''default'',
            StorageLocationUsed = ''keyring''\<rparr>"
  by (simp add: ReadCLICredentials_def getActiveProfile_def readFromKeychain_def
      keyring_Get_def empty_token_keyring_def keyring_world_def example_world_def
      example_lib_def defaultProfile_def getKeyringServiceName_def keychainServicePrefix_def
      keychainAccessToken_def keychainRefreshToken_def keychainUserEmail_def
      keychainSessionExpiry_def keychainAuthFlowType_def newCreds_def)

section \<open>Writing the file\<close>

lemma refreshed_marshal:
  "json_Marshal example_lib (updated_data example_lib m refreshed_creds) = Inr refreshed_doc"
  by (simp add: example_lib_def updated_data_def refreshed_creds_def IsZero_def map_val_def
      refreshed_doc_def)

lemma refreshed_encode: "base64_EncodeToString example_lib refreshed_doc = refreshed_doc_b64"
  by (simp add: example_lib_def)

lemma disk_full_path: "getFilePath example_lib disk_full_world ''default'' = Inr example_path"
  by (simp add: getFilePath_def example_lib_def example_world_def file_world_def
      disk_full_world_def example_path_def defaultProfile_def)

text \<open>
  The credential file holds a complete record and the write of the refreshed record runs
  out of space after ten bytes: \<^verbatim>\<open>writeToFile\<close> reports the error and the
  credential file, at its own path, is left holding the first ten bytes of the new
  encoding, neither the old content nor the new.
\<close>

theorem writeToFile_partial_counterexample:
  "files disk_full_world example_path = Content example_doc_b64
   \<and> fst (writeToFile example_lib disk_full_world ''default'' refreshed_creds)
       = Some ''no space left on device''
   \<and> files (snd (writeToFile example_lib disk_full_world ''default'' refreshed_creds)) example_path
       = Content ''eyJhY2Nlc3''"
  by (simp add: writeToFile_def disk_full_path refreshed_marshal refreshed_encode)
     (simp add: disk_full_world_def file_world_def example_world_def os_WriteFile_def
        refreshed_doc_b64_def)

text \<open>
  C4, as amended. \<^verbatim>\<open>writeToFile\<close> writes the encoded record straight to the
  credential file's own path with one \<^verbatim>\<open>os.WriteFile\<close>: no other path of the file
  system changes (so no temporary file is written), the keyring is not touched, and when
  it returns no error the credential file holds the complete Base64 encoding of the
  merged record.
\<close>

theorem writeToFile_direct:
  "(\<forall>p. getFilePath L W profile \<noteq> Inr p \<longrightarrow>
        files (snd (writeToFile L W profile creds)) p = files W p)
   \<and> keyring (snd (writeToFile L W profile creds)) = keyring W
   \<and> (\<forall>filePath. getFilePath L W profile = Inr filePath
        \<and> fst (writeToFile L W profile creds) = None \<longrightarrow>
        (\<exists>newContent.
           json_Marshal L (updated_data L (existing_data L W filePath) creds) = Inr newContent
           \<and> files (snd (writeToFile L W profile creds)) filePath
               = Content (base64_EncodeToString L newContent)))"
  by (auto simp: writeToFile_def os_WriteFile_def Let_def
      split: sum.splits option.splits write_fault.splits)

theorem writeToFile_direct_witness:
  "files (snd (writeToFile example_lib example_world ''default'' refreshed_creds))
     ''/home/u/.stackit/cli-provider-auth-storage.txt.tmp'' = NotExist
   \<and> fst (writeToFile example_lib example_world ''default'' refreshed_creds) = None
   \<and> files (snd (writeToFile example_lib example_world ''default'' refreshed_creds)) example_path
       = Content refreshed_doc_b64"
proof -
  have none: "fst (writeToFile example_lib example_world ''default'' refreshed_creds) = None"
    by (simp add: writeToFile_def example_file_path refreshed_marshal)
       (simp add: example_world_def os_WriteFile_def)
  have other: "getFilePath example_lib example_world ''default''
                 \<noteq> Inr ''/home/u/.stackit/cli-provider-auth-storage.txt.tmp''"
    by (simp add: example_file_path example_path_def)
  have old: "files example_world ''/home/u/.stackit/cli-provider-auth-storage.txt.tmp'' = NotExist"
    by (simp add: example_world_def)
  show ?thesis
    using writeToFile_direct [of example_lib example_world "''default''" refreshed_creds]
          none other old example_file_path refreshed_marshal refreshed_encode
    by auto
qed

section \<open>Refreshing and the store\<close>

lemma RefreshAccessToken_ok:
  assumes "RefreshToken c \<noteq> []"
    and "http_NewRequest L ''POST'' tokenEndpoint (url_Encode L (refresh_form c)) = Inr req"
    and "http_Do W (req\<lparr>req_content_type := ''application/x-www-form-urlencoded''\<rparr>)
           = Response 200 body"
    and "json_Decode L body = Inr result"
  shows "RefreshAccessToken L W (Some c)
           = (map_option ((@) ''write refreshed credentials: '')
                (fst (WriteCLICredentials L W (Some (apply_response (now W) c result)))),
              Some (apply_response (now W) c result),
              snd (WriteCLICredentials L W (Some (apply_response (now W) c result))))"
  using assms
  by (simp add: RefreshAccessToken_def refresh_form_def Let_def split: prod.splits option.splits)

lemma RefreshAccessToken_status:
  assumes "RefreshToken c \<noteq> []"
    and "http_NewRequest L ''POST'' tokenEndpoint (url_Encode L (refresh_form c)) = Inr req"
    and "http_Do W (req\<lparr>req_content_type := ''application/x-www-form-urlencoded''\<rparr>)
           = Response status body"
    and "status \<noteq> 200"
  shows "RefreshAccessToken L W (Some c)
           = (Some (''token refresh failed with status '' @ fmt_Int L status @ '': '' @ body),
              Some c, W)"
  using assms by (simp add: RefreshAccessToken_def refresh_form_def Let_def)

lemma RefreshAccessToken_frame:
  assumes "fst (RefreshAccessToken L W credsp) = Some err"
    and "\<not> prefix ''write refreshed credentials: '' err"
  shows "snd (snd (RefreshAccessToken L W credsp)) = W"
  using assms
  by (auto simp: RefreshAccessToken_def Let_def
      split: option.splits sum.splits http_result.splits if_splits prod.splits)

lemma RefreshAccessToken_early:
  assumes "credsp = None
     \<or> (\<exists>c. credsp = Some c
          \<and> (RefreshToken c = []
             \<or> (\<exists>e. http_NewRequest L ''POST'' tokenEndpoint (url_Encode L (refresh_form c)) = Inl e)
             \<or> (\<exists>req. http_NewRequest L ''POST'' tokenEndpoint (url_Encode L (refresh_form c)) = Inr req
                  \<and> ((\<exists>e. http_Do W (req\<lparr>req_content_type := ''application/x-www-form-urlencoded''\<rparr>)
                            = TransportError e)
                     \<or> (\<exists>status body.
                           http_Do W (req\<lparr>req_content_type := ''application/x-www-form-urlencoded''\<rparr>)
                             = Response status body
                           \<and> (status \<noteq> 200 \<or> (\<exists>e. json_Decode L body = Inl e)))))))"
  shows "fst (RefreshAccessToken L W credsp) \<noteq> None
         \<and> fst (snd (RefreshAccessToken L W credsp)) = credsp
         \<and> snd (snd (RefreshAccessToken L W credsp)) = W"
  using assms
  by (auto simp: RefreshAccessToken_def Let_def)

lemma sint_seconds:
  fixes e :: "64 word"
  assumes "0 < sint e" and "sint e \<le> 9223372036"
  shows "sint (e * Second) = sint e * 1000000000"
proof -
  have "sint (e * Second) = signed_take_bit 63 (sint e * 1000000000)"
    by (simp add: Second_def sint_word_ariths)
  also have "\<dots> = sint e * 1000000000"
    using assms by (intro signed_take_bit_int_eq_self) simp_all
  finally show ?thesis .
qed

lemma example_request:
  "http_NewRequest example_lib ''POST'' tokenEndpoint (url_Encode example_lib (refresh_form c))
     = Inr \<lparr>req_method = ''POST'', req_url = tokenEndpoint,
            req_body = ''client_id=stackit-cli-0000-0000-000000000001&grant_type=refresh_token&refresh_token=''
                       @ RefreshToken c,
            req_content_type = []\<rparr>"
  by (simp add: example_lib_def refresh_form_def map_val_def cliClientID_def)

lemma example_decode:
  "json_Decode example_lib response_A2
     = Inr \<lparr>resp_AccessToken = ''A2'', resp_RefreshToken = [], resp_ExpiresIn = 0,
            resp_TokenType = []\<rparr>"
  "json_Decode example_lib response_long
     = Inr \<lparr>resp_AccessToken = ''A2'', resp_RefreshToken = [], resp_ExpiresIn = 9223372037,
            resp_TokenType = []\<rparr>"
  "json_Decode example_lib response_3600
     = Inr \<lparr>resp_AccessToken = ''A2'', resp_RefreshToken = [], resp_ExpiresIn = 3600,
            resp_TokenType = []\<rparr>"
  by (simp_all add: example_lib_def response_A2_def response_long_def response_3600_def
      json_field_def dq_def)

lemma stored_keyring_http:
  "http_Do (stored_keyring status body) r = Response status body"
  "now (stored_keyring status body) = 1700000000000000000"
  by (simp_all add: stored_keyring_def keyring_world_def example_world_def)

lemma keyring_creds_token: "RefreshToken keyring_creds \<noteq> []"
  by (simp add: keyring_creds_def)

lemma example_apply_A2:
  "apply_response 1700000000000000000 keyring_creds
     \<lparr>resp_AccessToken = ''A2'', resp_RefreshToken = [], resp_ExpiresIn = 0, resp_TokenType = []\<rparr>
   = keyring_creds\<lparr>AccessToken := ''A2''\<rparr>"
  by (simp add: apply_response_def)

lemma example_apply_long:
  "apply_response 1700000000000000000 keyring_creds
     \<lparr>resp_AccessToken = ''A2'', resp_RefreshToken = [], resp_ExpiresIn = 9223372037,
      resp_TokenType = []\<rparr>
   = keyring_creds\<lparr>AccessToken := ''A2'', SessionExpiresAt := - 7523372036709551616\<rparr>"
  by (simp add: apply_response_def Add_def Second_def)

lemma stored_keyring_write:
  "fst (WriteCLICredentials example_lib (stored_keyring status body)
          (Some (keyring_creds\<lparr>AccessToken := ''A2''\<rparr>))) = None"
  "keyring (snd (WriteCLICredentials example_lib (stored_keyring status body)
                   (Some (keyring_creds\<lparr>AccessToken := ''A2''\<rparr>))))
     (''stackit-cli-provider'', ''access_token'') = Inr ''A2''"
  by (simp_all add: WriteCLICredentials_def writeToKeyring_def keyring_Set_def keyring_creds_def
      stored_keyring_def keyring_world_def example_world_def Let_def IsZero_def zeroTime_def
      getKeyringServiceName_def defaultProfile_def keychainServicePrefix_def
      keychainAccessToken_def keychainRefreshToken_def keychainUserEmail_def
      keychainSessionExpiry_def keychainAuthFlowType_def)

text \<open>
  The keyring holds the access token \<^verbatim>\<open>A\<close> and the token endpoint answers 200 with
  the access token \<^verbatim>\<open>A2\<close>: after \<^verbatim>\<open>RefreshAccessToken\<close> has returned without
  error, the keyring holds \<^verbatim>\<open>A2\<close>. The refresh has written the store.
\<close>

theorem RefreshAccessToken_writes_counterexample:
  "keyring (stored_keyring 200 response_A2) (''stackit-cli-provider'', ''access_token'') = Inr ''A''
   \<and> fst (RefreshAccessToken example_lib (stored_keyring 200 response_A2) (Some keyring_creds)) = None
   \<and> keyring (snd (snd (RefreshAccessToken example_lib (stored_keyring 200 response_A2)
                          (Some keyring_creds))))
        (''stackit-cli-provider'', ''access_token'') = Inr ''A2''"
  using RefreshAccessToken_ok
          [OF keyring_creds_token example_request stored_keyring_http(1) example_decode(1)]
  by (simp add: stored_keyring_http example_apply_A2 stored_keyring_write)
     (simp add: stored_keyring_def keyring_world_def example_world_def)

text \<open>
  C2, as amended. \<^verbatim>\<open>RefreshAccessToken\<close> persists the refreshed record itself: when
  the exchange succeeds (a 200 response whose body decodes) the store afterwards is the
  store that \<^verbatim>\<open>WriteCLICredentials\<close> leaves for the updated record. When the refresh
  fails before that write (a nil credential, an empty refresh token, a request that
  cannot be built or sent, a status other than 200, a body that does not decode), that is
  with any error other than a write error, both backends are left as they were and the
  credential is returned as it was given.
\<close>

theorem RefreshAccessToken_store:
  "(RefreshToken c \<noteq> []
      \<and> http_NewRequest L ''POST'' tokenEndpoint (url_Encode L (refresh_form c)) = Inr req
      \<and> http_Do W (req\<lparr>req_content_type := ''application/x-www-form-urlencoded''\<rparr>)
          = Response 200 body
      \<and> json_Decode L body = Inr result
    \<longrightarrow> snd (snd (RefreshAccessToken L W (Some c)))
          = snd (WriteCLICredentials L W (Some (apply_response (now W) c result))))
   \<and> (fst (RefreshAccessToken L W credsp) = Some err
      \<and> \<not> prefix ''write refreshed credentials: '' err
    \<longrightarrow> snd (snd (RefreshAccessToken L W credsp)) = W)
   \<and> (credsp = None
      \<or> (\<exists>c. credsp = Some c
           \<and> (RefreshToken c = []
              \<or> (\<exists>e. http_NewRequest L ''POST'' tokenEndpoint (url_Encode L (refresh_form c)) = Inl e)
              \<or> (\<exists>req. http_NewRequest L ''POST'' tokenEndpoint (url_Encode L (refresh_form c)) = Inr req
                   \<and> ((\<exists>e. http_Do W (req\<lparr>req_content_type := ''application/x-www-form-urlencoded''\<rparr>)
                             = TransportError e)
                      \<or> (\<exists>status body.
                            http_Do W (req\<lparr>req_content_type := ''application/x-www-form-urlencoded''\<rparr>)
                              = Response status body
                            \<and> (status \<noteq> 200 \<or> (\<exists>e. json_Decode L body = Inl e)))))))
    \<longrightarrow> fst (RefreshAccessToken L W credsp) \<noteq> None
        \<and> fst (snd (RefreshAccessToken L W credsp)) = credsp
        \<and> snd (snd (RefreshAccessToken L W credsp)) = W)"
proof (intro conjI)
  show "RefreshToken c \<noteq> []
      \<and> http_NewRequest L ''POST'' tokenEndpoint (url_Encode L (refresh_form c)) = Inr req
      \<and> http_Do W (req\<lparr>req_content_type := ''application/x-www-form-urlencoded''\<rparr>)
          = Response 200 body
      \<and> json_Decode L body = Inr result
    \<longrightarrow> snd (snd (RefreshAccessToken L W (Some c)))
          = snd (WriteCLICredentials L W (Some (apply_response (now W) c result)))"
    using RefreshAccessToken_ok [of c L req W body result] by simp
  show "fst (RefreshAccessToken L W credsp) = Some err
      \<and> \<not> prefix ''write refreshed credentials: '' err
    \<longrightarrow> snd (snd (RefreshAccessToken L W credsp)) = W"
    using RefreshAccessToken_frame [of L W credsp err] by simp
qed (rule impI, erule RefreshAccessToken_early)

lemma example_transport_error:
  "fst (RefreshAccessToken example_lib example_world (Some keyring_creds))
     = Some ''execute request: no such host''"
  by (simp add: RefreshAccessToken_def example_request
      keyring_creds_token Let_def)
     (simp add: example_world_def)

theorem RefreshAccessToken_store_witness:
  "snd (snd (RefreshAccessToken example_lib (stored_keyring 200 response_A2) (Some keyring_creds)))
     = snd (WriteCLICredentials example_lib (stored_keyring 200 response_A2)
              (Some (keyring_creds\<lparr>AccessToken := ''A2''\<rparr>)))
   \<and> snd (snd (RefreshAccessToken example_lib example_world (Some keyring_creds))) = example_world"
  using RefreshAccessToken_store
          [where L = example_lib and W = "stored_keyring 200 response_A2" and c = keyring_creds
             and body = response_A2
             and result = "\<lparr>resp_AccessToken = ''A2'', resp_RefreshToken = [], resp_ExpiresIn = 0,
                              resp_TokenType = []\<rparr>"
             and req = "\<lparr>req_method = ''POST'', req_url = tokenEndpoint,
                 req_body = ''client_id=stackit-cli-0000-0000-000000000001&grant_type=refresh_token&refresh_token=''
                            @ RefreshToken keyring_creds,
                 req_content_type = []\<rparr>"]
        RefreshAccessToken_store
          [where L = example_lib and W = example_world and credsp = "Some keyring_creds"
             and err = "''execute request: no such host''"]
        keyring_creds_token example_request stored_keyring_http example_decode
        example_apply_A2 example_transport_error
  by simp

section \<open>Updating the credential\<close>

lemma stored_keyring_write_long:
  "fst (WriteCLICredentials example_lib (stored_keyring status body)
          (Some (keyring_creds\<lparr>AccessToken := ''A2'', SessionExpiresAt := - 7523372036709551616\<rparr>)))
     = None"
  by (simp add: WriteCLICredentials_def writeToKeyring_def keyring_Set_def keyring_creds_def
      stored_keyring_def keyring_world_def example_world_def Let_def)

text \<open>
  Three responses. A 201 response is a failure and the credential stays as it was. A 200
  response without a lifetime leaves \<^verbatim>\<open>SessionExpiresAt\<close> at its previous value,
  which is set, not unset. A 200 response with a lifetime of 9223372037 seconds, whose
  count of nanoseconds does not fit 64 bits, moves \<^verbatim>\<open>SessionExpiresAt\<close> into the
  past.
\<close>

theorem RefreshAccessToken_update_counterexample:
  "RefreshAccessToken example_lib (stored_keyring 201 response_A2) (Some keyring_creds)
     = (Some (''token refresh failed with status 201: '' @ response_A2), Some keyring_creds,
        stored_keyring 201 response_A2)
   \<and> fst (RefreshAccessToken example_lib (stored_keyring 200 response_A2) (Some keyring_creds))
       = None
   \<and> map_option SessionExpiresAt
        (fst (snd (RefreshAccessToken example_lib (stored_keyring 200 response_A2)
                     (Some keyring_creds))))
       = Some 1700000000000000000
   \<and> \<not> IsZero 1700000000000000000
   \<and> fst (RefreshAccessToken example_lib (stored_keyring 200 response_long) (Some keyring_creds))
       = None
   \<and> map_option SessionExpiresAt
        (fst (snd (RefreshAccessToken example_lib (stored_keyring 200 response_long)
                     (Some keyring_creds))))
       = Some (1700000000000000000 - 9223372036709551616)"
  using RefreshAccessToken_status
          [OF keyring_creds_token example_request stored_keyring_http(1), of 201 response_A2]
        RefreshAccessToken_ok
          [OF keyring_creds_token example_request stored_keyring_http(1) example_decode(1)]
        RefreshAccessToken_ok
          [OF keyring_creds_token example_request stored_keyring_http(1) example_decode(2)]
  by (simp add: stored_keyring_http example_apply_A2 example_apply_long stored_keyring_write
      stored_keyring_write_long)
     (simp add: example_lib_def keyring_creds_def IsZero_def zeroTime_def)

text \<open>
  C7, as amended. On a 200 response whose body decodes, the credential the caller holds
  afterwards has the response's access token; the response's refresh token when that is
  not empty and the previous one otherwise; \<^verbatim>\<open>SessionExpiresAt\<close> recomputed from now
  and the lifetime when the lifetime is positive, which is now plus that many seconds for
  a lifetime up to 9223372036 seconds, and the previous \<^verbatim>\<open>SessionExpiresAt\<close>
  otherwise; and its other fields unchanged. On any other status the refresh fails and
  the credential is unchanged.
\<close>

theorem RefreshAccessToken_update:
  "(RefreshToken c \<noteq> []
      \<and> http_NewRequest L ''POST'' tokenEndpoint (url_Encode L (refresh_form c)) = Inr req
      \<and> http_Do W (req\<lparr>req_content_type := ''application/x-www-form-urlencoded''\<rparr>)
          = Response 200 body
      \<and> json_Decode L body = Inr result
    \<longrightarrow> (\<exists>c'. fst (snd (RefreshAccessToken L W (Some c))) = Some c'
          \<and> AccessToken c' = resp_AccessToken result
          \<and> RefreshToken c' = (if resp_RefreshToken result \<noteq> [] then resp_RefreshToken result
                                else RefreshToken c)
          \<and> SessionExpiresAt c' = (if 0 < sint (resp_ExpiresIn result)
                                    then now W + sint (resp_ExpiresIn result * 1000000000)
                                    else SessionExpiresAt c)
          \<and> (if 0 < sint (resp_ExpiresIn result) \<and> sint (resp_ExpiresIn result) \<le> 9223372036
              then SessionExpiresAt c' = now W + sint (resp_ExpiresIn result) * 1000000000
              else True)
          \<and> Email c' = Email c \<and> AuthFlowType c' = AuthFlowType c
          \<and> SourceProfile c' = SourceProfile c
          \<and> StorageLocationUsed c' = StorageLocationUsed c))
   \<and> (RefreshToken c \<noteq> []
      \<and> http_NewRequest L ''POST'' tokenEndpoint (url_Encode L (refresh_form c)) = Inr req
      \<and> http_Do W (req\<lparr>req_content_type := ''application/x-www-form-urlencoded''\<rparr>)
          = Response status body
      \<and> status \<noteq> 200
    \<longrightarrow> fst (RefreshAccessToken L W (Some c)) \<noteq> None
        \<and> fst (snd (RefreshAccessToken L W (Some c))) = Some c)"
proof (intro conjI impI)
  assume h: "RefreshToken c \<noteq> []
      \<and> http_NewRequest L ''POST'' tokenEndpoint (url_Encode L (refresh_form c)) = Inr req
      \<and> http_Do W (req\<lparr>req_content_type := ''application/x-www-form-urlencoded''\<rparr>)
          = Response 200 body
      \<and> json_Decode L body = Inr result"
  let ?c = "apply_response (now W) c result"
  have "fst (snd (RefreshAccessToken L W (Some c))) = Some ?c"
    using h RefreshAccessToken_ok [of c L req W body result] by simp
  moreover have "AccessToken ?c = resp_AccessToken result"
    by (simp add: apply_response_def Let_def)
  moreover have "RefreshToken ?c = (if resp_RefreshToken result \<noteq> [] then resp_RefreshToken result
                                else RefreshToken c)"
    by (simp add: apply_response_def Let_def)
  moreover have "SessionExpiresAt ?c = (if 0 < sint (resp_ExpiresIn result)
                                    then now W + sint (resp_ExpiresIn result * 1000000000)
                                    else SessionExpiresAt c)"
    by (simp add: apply_response_def Let_def Add_def Second_def)
  moreover have "if 0 < sint (resp_ExpiresIn result) \<and> sint (resp_ExpiresIn result) \<le> 9223372036
              then SessionExpiresAt ?c = now W + sint (resp_ExpiresIn result) * 1000000000
              else True"
    by (simp add: apply_response_def Let_def Add_def sint_seconds)
  moreover have "Email ?c = Email c \<and> AuthFlowType ?c = AuthFlowType c
          \<and> SourceProfile ?c = SourceProfile c
          \<and> StorageLocationUsed ?c = StorageLocationUsed c"
    by (simp add: apply_response_def Let_def)
  ultimately show "\<exists>c'. fst (snd (RefreshAccessToken L W (Some c))) = Some c'
          \<and> AccessToken c' = resp_AccessToken result
          \<and> RefreshToken c' = (if resp_RefreshToken result \<noteq> [] then resp_RefreshToken result
                                else RefreshToken c)
          \<and> SessionExpiresAt c' = (if 0 < sint (resp_ExpiresIn result)
                                    then now W + sint (resp_ExpiresIn result * 1000000000)
                                    else SessionExpiresAt c)
          \<and> (if 0 < sint (resp_ExpiresIn result) \<and> sint (resp_ExpiresIn result) \<le> 9223372036
              then SessionExpiresAt c' = now W + sint (resp_ExpiresIn result) * 1000000000
              else True)
          \<and> Email c' = Email c \<and> AuthFlowType c' = AuthFlowType c
          \<and> SourceProfile c' = SourceProfile c
          \<and> StorageLocationUsed c' = StorageLocationUsed c"
    by blast
next
  assume h: "RefreshToken c \<noteq> []
      \<and> http_NewRequest L ''POST'' tokenEndpoint (url_Encode L (refresh_form c)) = Inr req
      \<and> http_Do W (req\<lparr>req_content_type := ''application/x-www-form-urlencoded''\<rparr>)
          = Response status body
      \<and> status \<noteq> 200"
  then show "fst (RefreshAccessToken L W (Some c)) \<noteq> None"
    using RefreshAccessToken_status [of c L req W status body] by simp
  from h show "fst (snd (RefreshAccessToken L W (Some c))) = Some c"
    using RefreshAccessToken_status [of c L req W status body] by simp
qed

theorem RefreshAccessToken_update_witness:
  "(\<exists>c'. fst (snd (RefreshAccessToken example_lib (stored_keyring 200 response_3600)
                      (Some keyring_creds))) = Some c'
        \<and> AccessToken c' = ''A2'' \<and> RefreshToken c' = ''R''
        \<and> SessionExpiresAt c' = 1700003600000000000)
   \<and> fst (snd (RefreshAccessToken example_lib (stored_keyring 201 response_A2)
                  (Some keyring_creds))) = Some keyring_creds"
  using RefreshAccessToken_update
          [where L = example_lib and W = "stored_keyring 200 response_3600" and c = keyring_creds
             and body = response_3600
             and result = "\<lparr>resp_AccessToken = ''A2'', resp_RefreshToken = [],
                              resp_ExpiresIn = 3600, resp_TokenType = []\<rparr>"
             and req = "\<lparr>req_method = ''POST'', req_url = tokenEndpoint,
                 req_body = ''client_id=stackit-cli-0000-0000-000000000001&grant_type=refresh_token&refresh_token=''
                            @ RefreshToken keyring_creds,
                 req_content_type = []\<rparr>"]
        RefreshAccessToken_update
          [where L = example_lib and W = "stored_keyring 201 response_A2" and c = keyring_creds
             and body = response_A2 and status = 201
             and req = "\<lparr>req_method = ''POST'', req_url = tokenEndpoint,
                 req_body = ''client_id=stackit-cli-0000-0000-000000000001&grant_type=refresh_token&refresh_token=''
                            @ RefreshToken keyring_creds,
                 req_content_type = []\<rparr>"]
        keyring_creds_token example_request stored_keyring_http example_decode
  by (simp add: keyring_creds_def) blast

section \<open>Write-back after a refresh\<close>

lemma expired_file_read:
  "readFromFile example_lib expired_file_world ''default''
     = Inr ((newCreds ''A'' ''R'' ''e@x.com'')\<lparr>SessionExpiresAt := 1700000000000000000\<rparr>)"
  by (simp add: readFromFile_def getFilePath_def expired_file_world_def file_world_def
      example_world_def example_lib_def example_path_def defaultProfile_def
      expired_doc_b64_def example_doc_b64_def badexp_doc_b64_def expired_doc_def
      example_doc_def badexp_doc_def json_field_def dq_def expired_map_def map_index_def
      time_Unix_def newCreds_def)

lemma expired_file_world_facts:
  "getActiveProfile example_lib expired_file_world [] = Inr ''default''"
  "readFromKeychain example_lib expired_file_world ''default''
     = Inl ''get access_token: secret not found in keyring''"
  "http_Do expired_file_world r = Response 200 response_A2"
  "now expired_file_world = 1700000000000000000"
  "files expired_file_world example_path = Content expired_doc_b64"
  by (simp_all add: getActiveProfile_def readFromKeychain_def keyring_Get_def
      expired_file_world_def file_world_def example_world_def example_lib_def example_path_def
      defaultProfile_def)

lemma expired_file_creds_token: "RefreshToken expired_file_creds \<noteq> []"
  by (simp add: expired_file_creds_def)

lemma expired_file_apply:
  "apply_response 1700000000000000000 expired_file_creds
     \<lparr>resp_AccessToken = ''A2'', resp_RefreshToken = [], resp_ExpiresIn = 0, resp_TokenType = []\<rparr>
   = expired_file_creds\<lparr>AccessToken := ''A2''\<rparr>"
  by (simp add: apply_response_def)

lemma expired_file_write:
  "fst (WriteCLICredentials example_lib expired_file_world
          (Some (expired_file_creds\<lparr>AccessToken := ''A2''\<rparr>))) = None"
  "files (snd (WriteCLICredentials example_lib expired_file_world
                 (Some (expired_file_creds\<lparr>AccessToken := ''A2''\<rparr>))))
     = files expired_file_world"
  "keyring (snd (WriteCLICredentials example_lib expired_file_world
                   (Some (expired_file_creds\<lparr>AccessToken := ''A2''\<rparr>))))
     (''stackit-cli-provider'', ''access_token'') = Inr ''A2''"
  by (simp_all add: WriteCLICredentials_def writeToKeyring_def keyring_Set_def
      expired_file_creds_def expired_file_world_def file_world_def example_world_def Let_def
      IsZero_def zeroTime_def getKeyringServiceName_def defaultProfile_def
      keychainServicePrefix_def keychainAccessToken_def keychainRefreshToken_def
      keychainUserEmail_def keychainSessionExpiry_def keychainAuthFlowType_def)

text \<open>
  C1 at a credential read from the file. The keyring works and is empty, the file holds
  an expired credential: the read is satisfied by the file and says so, the refresh
  succeeds, and the write-back stores the new access token in the keyring and leaves
  every file as it was.
\<close>

theorem write_back_goes_to_keyring:
  "ReadCLICredentials example_lib expired_file_world [] = Inr expired_file_creds
   \<and> StorageLocationUsed expired_file_creds = ''file''
   \<and> IsTokenExpired expired_file_world (Some expired_file_creds)
   \<and> fst (EnsureValidToken example_lib expired_file_world (Some expired_file_creds)) = None
   \<and> files (snd (snd (EnsureValidToken example_lib expired_file_world (Some expired_file_creds))))
       = files expired_file_world
   \<and> files expired_file_world example_path = Content expired_doc_b64
   \<and> keyring (snd (snd (EnsureValidToken example_lib expired_file_world
                          (Some expired_file_creds))))
        (''stackit-cli-provider'', ''access_token'') = Inr ''A2''"
proof -
  have read: "ReadCLICredentials example_lib expired_file_world [] = Inr expired_file_creds"
    by (simp add: ReadCLICredentials_def expired_file_world_facts expired_file_read)
       (simp add: newCreds_def expired_file_creds_def)
  have expired: "IsTokenExpired expired_file_world (Some expired_file_creds)"
    by (simp add: IsTokenExpired_def expired_file_world_facts expired_file_creds_def IsZero_def
        zeroTime_def Add_def After_def sint_durations)
  have refresh: "RefreshAccessToken example_lib expired_file_world (Some expired_file_creds)
          = (None, Some (expired_file_creds\<lparr>AccessToken := ''A2''\<rparr>),
             snd (WriteCLICredentials example_lib expired_file_world
                    (Some (expired_file_creds\<lparr>AccessToken := ''A2''\<rparr>))))"
    using RefreshAccessToken_ok
            [OF expired_file_creds_token example_request expired_file_world_facts(3)
                example_decode(1)]
    by (simp add: expired_file_world_facts expired_file_apply expired_file_write)
  show ?thesis
    using read expired refresh
    by (simp add: EnsureValidToken_def expired_file_write expired_file_world_facts)
       (simp add: expired_file_creds_def)
qed

end
